theory Spec2Isabelle
  imports Main "HOL-Library.Char_ord" "HOL-Library.List_Lexorder" "HOL-Library.Multiset"
begin

section \<open>The font accessor of RSSpythemes (\<^verbatim>\<open>RSSpythemes/fonts/__init__.py\<close>)\<close>

text \<open>
  The module is glue between three things it does not own: the filesystem below the
  package, the module \<^verbatim>\<open>matplotlib.font_manager\<close> (bound to the name \<^verbatim>\<open>fm\<close> when the import
  succeeds) and standard output. Each of them is a parameter of the model:
  \<^item> a file name is a \<open>string\<close> (its UTF-8 bytes; the bytewise lexicographic order of
    UTF-8 is Python's code point order of \<^verbatim>\<open>str\<close>), a \<^verbatim>\<open>pathlib.Path\<close> is the list of its
    components below the root;
  \<^item> the filesystem maps a path to the names of its directory entries, in the order the
    operating system enumerates them; a path that does not exist maps to \<open>None\<close>, and a
    path that is not a directory has no entries. Reading the package's own directory is
    taken to succeed;
  \<^item> the font manager is a record of the three operations the code calls, over an
    abstract state \<open>'fm\<close> of the library (its process-wide registry);
  \<^item> every call that leaves the module is recorded as an \<open>event\<close>, in order;
  \<^item> standard output either writes a line or raises, as \<open>stdout\<close> says for the line.
\<close>

subsection \<open>Paths and the filesystem\<close>

type_synonym path = "string list"

type_synonym filesystem = "path \<rightharpoonup> string list"

definition path_str :: "path \<Rightarrow> string" where
  \<comment> \<open>\<^verbatim>\<open>str(p)\<close> of an absolute POSIX path\<close>
  "path_str p = concat (map (\<lambda>c. CHR ''/'' # c) p)"

definition path_name :: "path \<Rightarrow> string" where
  \<comment> \<open>\<^verbatim>\<open>p.name\<close>: the last component, empty for the root\<close>
  "path_name p = (if p = [] then [] else last p)"

definition path_exists :: "filesystem \<Rightarrow> path \<Rightarrow> bool" where
  "path_exists fs p = (fs p \<noteq> None)"

definition matches_ttf :: "string \<Rightarrow> bool" where
  \<comment> \<open>the pattern \<^verbatim>\<open>*.ttf\<close> of \<^verbatim>\<open>Path.glob\<close>, matched case-sensitively (POSIX)\<close>
  "matches_ttf n = (4 \<le> length n \<and> drop (length n - 4) n = ''.ttf'')"

definition glob_ttf :: "filesystem \<Rightarrow> path \<Rightarrow> path list" where
  \<comment> \<open>\<^verbatim>\<open>d.glob("*.ttf")\<close>: the matching entries of \<open>d\<close>, as paths, in enumeration order\<close>
  "glob_ttf fs d =
     (case fs d of
        None \<Rightarrow> []
      | Some names \<Rightarrow> map (\<lambda>n. d @ [n]) (filter matches_ttf names))"

definition get_font_path :: "path \<Rightarrow> path" where
  \<comment> \<open>\<^verbatim>\<open>Path(__file__).parent / "source_sans_pro"\<close>; the argument is \<^verbatim>\<open>__file__\<close>\<close>
  "get_font_path module_file = butlast module_file @ [''source_sans_pro'']"

definition list_available_fonts :: "path \<Rightarrow> filesystem \<Rightarrow> string list" where
  "list_available_fonts module_file fs =
     (let font_dir = get_font_path module_file in
      if \<not> path_exists fs font_dir then []
      else
        let font_files = map path_name (glob_ttf fs font_dir)
        in sort font_files)"

definition get_source_sans_weights :: "(string \<times> string) list" where
  \<comment> \<open>the dict literal, in the order it is written\<close>
  "get_source_sans_weights =
     [(''regular'', ''SourceSansPro-Regular.ttf''),
      (''italic'', ''SourceSansPro-Italic.ttf''),
      (''bold'', ''SourceSansPro-Bold.ttf''),
      (''bold_italic'', ''SourceSansPro-BoldItalic.ttf'')]"

subsection \<open>Exceptions, the font manager and the module's globals\<close>

datatype py_exception =
    ImportError string
  | AttributeError string
  | NameError string
  | OtherException string

fun is_AttributeError :: "py_exception \<Rightarrow> bool" where
  "is_AttributeError (AttributeError _) = True"
| "is_AttributeError _ = False"

fun str_exception :: "py_exception \<Rightarrow> string" where
  "str_exception (ImportError m) = m"
| "str_exception (AttributeError m) = m"
| "str_exception (NameError n) = ''name '' @ [CHR 0x27] @ n @ [CHR 0x27] @ '' is not defined''"
| "str_exception (OtherException m) = m"

text \<open>
  \<^verbatim>\<open>matplotlib.font_manager\<close> as far as the code uses it. An operation returns the exception
  it raised (\<open>None\<close> when it returned normally) and the registry it leaves behind.
  \<open>rebuild\<close> is the attribute \<^verbatim>\<open>_rebuild\<close>, \<open>None\<close> in a version of the library that has no
  such attribute. \<open>ttflist_names\<close> gives \<^verbatim>\<open>f.name\<close> for each entry of
  \<^verbatim>\<open>fontManager.ttflist\<close>. The exceptions are subclasses of \<^verbatim>\<open>Exception\<close>, the ones
  \<^verbatim>\<open>except Exception\<close> catches; \<open>OtherException\<close> stands for every class the code does not
  name.
\<close>

record 'fm font_manager_module =
  addfont :: "string \<Rightarrow> 'fm \<Rightarrow> py_exception option \<times> 'fm"
  rebuild :: "('fm \<Rightarrow> py_exception option \<times> 'fm) option"
  ttflist_names :: "'fm \<Rightarrow> string list"

record 'fm module_globals =
  fm :: "'fm font_manager_module option"
  MATPLOTLIB_AVAILABLE :: bool

definition import_module :: "'fm font_manager_module option \<Rightarrow> 'fm module_globals" where
  \<comment> \<open>lines 11-20: the \<^verbatim>\<open>try: import ... except ImportError\<close> at module level; the argument
      is the library when it can be imported\<close>
  "import_module matplotlib =
     (case matplotlib of
        Some m \<Rightarrow> \<lparr>fm = Some m, MATPLOTLIB_AVAILABLE = True\<rparr>
      | None \<Rightarrow> \<lparr>fm = None, MATPLOTLIB_AVAILABLE = False\<rparr>)"

subsection \<open>Events and the state a call threads\<close>

datatype event =
    FsExists path
  | FsGlob path
  | AddFont string "py_exception option"
  | Rebuild "py_exception option"
  | Print string

record 'fm world =
  fontManager :: 'fm
  trace :: "event list"

definition start :: "'fm \<Rightarrow> 'fm world" where
  "start s = \<lparr>fontManager = s, trace = []\<rparr>"

definition emit :: "event \<Rightarrow> 'fm world \<Rightarrow> 'fm world" where
  "emit e w = w\<lparr>trace := trace w @ [e]\<rparr>"

type_synonym stdout = "string \<Rightarrow> py_exception option"

definition print_line :: "stdout \<Rightarrow> string \<Rightarrow> 'fm world \<Rightarrow> py_exception option \<times> 'fm world" where
  \<comment> \<open>\<^verbatim>\<open>print(line)\<close>: the line is written, or the write raises and nothing is written\<close>
  "print_line sys_stdout line w =
     (case sys_stdout line of
        None \<Rightarrow> (None, emit (Print line) w)
      | Some e \<Rightarrow> (Some e, w))"

definition print_if ::
  "stdout \<Rightarrow> bool \<Rightarrow> string \<Rightarrow> 'fm world \<Rightarrow> py_exception option \<times> 'fm world" where
  \<comment> \<open>\<^verbatim>\<open>if verbose: print(line)\<close>\<close>
  "print_if sys_stdout verbose line w =
     (if verbose then print_line sys_stdout line w else (None, w))"

definition then_return ::
  "py_exception option \<times> 'fm world \<Rightarrow> bool \<Rightarrow> (py_exception + bool) \<times> 'fm world" where
  \<comment> \<open>a statement outside every \<^verbatim>\<open>try\<close>, followed by \<^verbatim>\<open>return b\<close>\<close>
  "then_return stmt b =
     (case stmt of
        (None, w) \<Rightarrow> (Inr b, w)
      | (Some e, w) \<Rightarrow> (Inl e, w))"

function str_nat :: "nat \<Rightarrow> string" where
  "str_nat n =
     (if n < 10 then [''0123456789'' ! n]
      else str_nat (n div 10) @ [''0123456789'' ! (n mod 10)])"
  by pat_completeness auto
termination
  by (relation "measure id") auto

declare str_nat.simps [simp del]

subsection \<open>Registration\<close>

text \<open>The messages: the argument of \<^verbatim>\<open>ImportError\<close> and the five f-strings.\<close>

definition required_message :: string where
  "required_message =
     ''matplotlib is required to register fonts. Install it with: pip install matplotlib''"

definition line_not_found :: "path \<Rightarrow> string" where
  "line_not_found font_dir = ''Font directory not found: '' @ path_str font_dir"

definition line_no_files :: "path \<Rightarrow> string" where
  "line_no_files font_dir = ''No font files found in: '' @ path_str font_dir"

definition line_registered :: "path \<Rightarrow> string" where
  "line_registered font_file = ''Registered: '' @ path_name font_file"

definition line_failed :: "path \<Rightarrow> py_exception \<Rightarrow> string" where
  "line_failed font_file e =
     ''Failed to register '' @ path_name font_file @ '': '' @ str_exception e"

definition line_success :: "nat \<Rightarrow> string" where
  "line_success registered_count =
     ''Successfully registered '' @ str_nat registered_count @ '' font(s)''"

definition try_addfont ::
  "'fm module_globals \<Rightarrow> string \<Rightarrow> 'fm world \<Rightarrow> py_exception option \<times> 'fm world" where
  \<comment> \<open>\<^verbatim>\<open>fm.fontManager.addfont(p)\<close>; the name \<^verbatim>\<open>fm\<close> is unbound when the import failed\<close>
  "try_addfont G p w =
     (case fm G of
        None \<Rightarrow> (Some (NameError ''fm''), w)
      | Some m \<Rightarrow>
          (case addfont m p (fontManager w) of
             (r, s') \<Rightarrow> (r, emit (AddFont p r) (w\<lparr>fontManager := s'\<rparr>))))"

definition try_block ::
  "'fm module_globals \<Rightarrow> stdout \<Rightarrow> bool \<Rightarrow> path \<Rightarrow> nat \<Rightarrow> 'fm world
     \<Rightarrow> py_exception option \<times> nat \<times> 'fm world" where
  \<comment> \<open>lines 116-120, the body of the \<^verbatim>\<open>try\<close>: the count is incremented before the line is
      printed, and an exception of the print is an exception of the block\<close>
  "try_block G sys_stdout verbose font_file registered_count w =
     (case try_addfont G (path_str font_file) w of
        (Some e, w') \<Rightarrow> (Some e, registered_count, w')
      | (None, w') \<Rightarrow>
          (case print_if sys_stdout verbose (line_registered font_file) w' of
             (r, w'') \<Rightarrow> (r, registered_count + 1, w'')))"

fun register_loop ::
  "'fm module_globals \<Rightarrow> stdout \<Rightarrow> bool \<Rightarrow> path list \<Rightarrow> nat \<Rightarrow> 'fm world
     \<Rightarrow> (py_exception + nat) \<times> 'fm world" where
  \<comment> \<open>lines 115-123; an exception of the handler's own print leaves the loop\<close>
  "register_loop G sys_stdout verbose [] registered_count w = (Inr registered_count, w)"
| "register_loop G sys_stdout verbose (font_file # rest) registered_count w =
     (case try_block G sys_stdout verbose font_file registered_count w of
        (None, registered_count', w') \<Rightarrow>
          register_loop G sys_stdout verbose rest registered_count' w'
      | (Some e, registered_count', w') \<Rightarrow>
          (case print_if sys_stdout verbose (line_failed font_file e) w' of
             (None, w'') \<Rightarrow> register_loop G sys_stdout verbose rest registered_count' w''
           | (Some e', w'') \<Rightarrow> (Inl e', w'')))"

definition try_rebuild ::
  "'fm module_globals \<Rightarrow> 'fm world \<Rightarrow> py_exception option \<times> 'fm world" where
  \<comment> \<open>\<^verbatim>\<open>fm._rebuild()\<close>: the attribute lookup raises AttributeError when it is missing\<close>
  "try_rebuild G w =
     (case fm G of
        None \<Rightarrow> (Some (NameError ''fm''), w)
      | Some m \<Rightarrow>
          (case rebuild m of
             None \<Rightarrow>
               (let e = AttributeError ''module has no attribute _rebuild''
                in (Some e, emit (Rebuild (Some e)) w))
           | Some f \<Rightarrow>
               (case f (fontManager w) of
                  (r, s') \<Rightarrow> (r, emit (Rebuild r) (w\<lparr>fontManager := s'\<rparr>)))))"

definition register_source_sans_fonts ::
  "'fm module_globals \<Rightarrow> path \<Rightarrow> filesystem \<Rightarrow> stdout \<Rightarrow> bool \<Rightarrow> 'fm world
     \<Rightarrow> (py_exception + bool) \<times> 'fm world" where
  "register_source_sans_fonts G module_file fs sys_stdout verbose w =
     (if \<not> MATPLOTLIB_AVAILABLE G then
        (Inl (ImportError required_message), w)
      else
        let font_dir = get_font_path module_file;
            w1 = emit (FsExists font_dir) w
        in
        if \<not> path_exists fs font_dir then
          then_return (print_if sys_stdout verbose (line_not_found font_dir) w1) False
        else
          let font_files = glob_ttf fs font_dir;
              w2 = emit (FsGlob font_dir) w1
          in
          if font_files = [] then
            then_return (print_if sys_stdout verbose (line_no_files font_dir) w2) False
          else
            (case register_loop G sys_stdout verbose font_files 0 w2 of
               (Inl e, w3) \<Rightarrow> (Inl e, w3)
             | (Inr registered_count, w3) \<Rightarrow>
                 if registered_count > 0 then
                   (case try_rebuild G w3 of
                      (r, w4) \<Rightarrow>
                        let returned =
                          then_return
                            (print_if sys_stdout verbose (line_success registered_count) w4)
                            (registered_count > 0)
                        in
                        (case r of
                           None \<Rightarrow> returned
                         | Some e \<Rightarrow> if is_AttributeError e then returned else (Inl e, w4)))
                 else (Inr (registered_count > 0), w3)))"

definition is_source_sans_available :: "'fm module_globals \<Rightarrow> 'fm \<Rightarrow> py_exception + bool" where
  "is_source_sans_available G s =
     (if \<not> MATPLOTLIB_AVAILABLE G then Inr False
      else
        (case fm G of
           None \<Rightarrow> Inl (NameError ''fm'')
         | Some m \<Rightarrow>
             (let font_names = set (ttflist_names m s)
              in Inr (''Source Sans Pro'' \<in> font_names))))"

subsection \<open>Reading a trace\<close>

fun attempted :: "event list \<Rightarrow> string list" where
  \<comment> \<open>the paths handed to \<^verbatim>\<open>addfont\<close>, in order\<close>
  "attempted [] = []"
| "attempted (e # t) = (case e of AddFont p r \<Rightarrow> p # attempted t | _ \<Rightarrow> attempted t)"

fun registered :: "event list \<Rightarrow> string list" where
  \<comment> \<open>the paths for which \<^verbatim>\<open>addfont\<close> returned normally, in order\<close>
  "registered [] = []"
| "registered (e # t) = (case e of AddFont p None \<Rightarrow> p # registered t | _ \<Rightarrow> registered t)"

fun rebuilds :: "event list \<Rightarrow> py_exception option list" where
  \<comment> \<open>the outcome of each attempt to rebuild the font cache\<close>
  "rebuilds [] = []"
| "rebuilds (e # t) = (case e of Rebuild r \<Rightarrow> r # rebuilds t | _ \<Rightarrow> rebuilds t)"

fun printed :: "event list \<Rightarrow> string list" where
  \<comment> \<open>the lines written to standard output\<close>
  "printed [] = []"
| "printed (e # t) = (case e of Print l \<Rightarrow> l # printed t | _ \<Rightarrow> printed t)"

fun effects :: "event list \<Rightarrow> event list" where
  \<comment> \<open>the trace without what was printed\<close>
  "effects [] = []"
| "effects (e # t) = (case e of Print l \<Rightarrow> effects t | _ \<Rightarrow> e # effects t)"

fun tolerated :: "py_exception option \<Rightarrow> bool" where
  \<comment> \<open>an outcome of the rebuild that \<^verbatim>\<open>except AttributeError: pass\<close> lets through\<close>
  "tolerated None = True"
| "tolerated (Some e) = is_AttributeError e"

subsection \<open>A standard output that writes\<close>

definition writes :: "stdout \<Rightarrow> bool \<Rightarrow> bool" where
  \<comment> \<open>no \<^verbatim>\<open>print\<close> of the call can raise: nothing is printed, or every line is written\<close>
  "writes sys_stdout verbose = (verbose \<longrightarrow> (\<forall>line. sys_stdout line = None))"

text \<open>
  What the statements do when every line is written; the proofs go through these, the
  properties are stated of the functions above.
\<close>

definition say :: "bool \<Rightarrow> string \<Rightarrow> 'fm world \<Rightarrow> 'fm world" where
  \<comment> \<open>\<^verbatim>\<open>if verbose: print(line)\<close> when the line is written\<close>
  "say verbose line w = (if verbose then emit (Print line) w else w)"

fun loop_written ::
  "'fm module_globals \<Rightarrow> bool \<Rightarrow> path list \<Rightarrow> nat \<Rightarrow> 'fm world \<Rightarrow> nat \<times> 'fm world" where
  "loop_written G verbose [] registered_count w = (registered_count, w)"
| "loop_written G verbose (font_file # rest) registered_count w =
     (case try_addfont G (path_str font_file) w of
        (None, w') \<Rightarrow>
          loop_written G verbose rest (registered_count + 1)
            (say verbose (line_registered font_file) w')
      | (Some e, w') \<Rightarrow>
          loop_written G verbose rest registered_count
            (say verbose (line_failed font_file e) w'))"

definition register_written ::
  "'fm module_globals \<Rightarrow> path \<Rightarrow> filesystem \<Rightarrow> bool \<Rightarrow> 'fm world
     \<Rightarrow> (py_exception + bool) \<times> 'fm world" where
  "register_written G module_file fs verbose w =
     (if \<not> MATPLOTLIB_AVAILABLE G then
        (Inl (ImportError required_message), w)
      else
        let font_dir = get_font_path module_file;
            w1 = emit (FsExists font_dir) w
        in
        if \<not> path_exists fs font_dir then
          (Inr False, say verbose (line_not_found font_dir) w1)
        else
          let font_files = glob_ttf fs font_dir;
              w2 = emit (FsGlob font_dir) w1
          in
          if font_files = [] then
            (Inr False, say verbose (line_no_files font_dir) w2)
          else
            (case loop_written G verbose font_files 0 w2 of
               (registered_count, w3) \<Rightarrow>
                 if registered_count > 0 then
                   (case try_rebuild G w3 of
                      (r, w4) \<Rightarrow>
                        let returned =
                          (Inr (registered_count > 0),
                           say verbose (line_success registered_count) w4)
                        in
                        (case r of
                           None \<Rightarrow> returned
                         | Some e \<Rightarrow> if is_AttributeError e then returned else (Inl e, w4)))
                 else (Inr (registered_count > 0), w3)))"

definition same_effects :: "'fm world \<Rightarrow> 'fm world \<Rightarrow> bool" where
  \<comment> \<open>two states that differ in what was printed at most\<close>
  "same_effects w1 w2 =
     (fontManager w1 = fontManager w2 \<and> effects (trace w1) = effects (trace w2))"

definition after_loop ::
  "'fm module_globals \<Rightarrow> path \<Rightarrow> filesystem \<Rightarrow> bool \<Rightarrow> 'fm world \<Rightarrow> nat \<times> 'fm world" where
  \<comment> \<open>the count and the state when the \<^verbatim>\<open>for\<close> loop of a call is left\<close>
  "after_loop G mf fs v w =
     loop_written G v (glob_ttf fs (get_font_path mf)) 0
       (emit (FsGlob (get_font_path mf)) (emit (FsExists (get_font_path mf)) w))"

subsection \<open>A font manager that records family names\<close>

definition recording_manager ::
  "(string \<Rightarrow> string) \<Rightarrow> (string \<Rightarrow> py_exception option)
     \<Rightarrow> (string list \<Rightarrow> py_exception option \<times> string list) option
     \<Rightarrow> string list font_manager_module" where
  \<comment> \<open>a stub of the library: its registry is the list of family names added so far;
      \<open>family\<close> reads the family of a font file, \<open>broken\<close> gives the exception a file
      that cannot be read raises\<close>
  "recording_manager family broken rb =
     \<lparr>addfont = (\<lambda>p s. case broken p of None \<Rightarrow> (None, s @ [family p]) | Some e \<Rightarrow> (Some e, s)),
      rebuild = rb,
      ttflist_names = (\<lambda>s. s)\<rparr>"



subsection \<open>The bundled typeface directory\<close>

definition bundled_names :: "string list" where
  \<comment> \<open>Modelled from the spec: the typeface files of the directory \<^verbatim>\<open>source_sans_pro\<close>; the
      files are not among the sources. The spec names these four and allows further
      weight files beside them.\<close>
  "bundled_names =
     [''SourceSansPro-Regular.ttf'', ''SourceSansPro-Italic.ttf'',
      ''SourceSansPro-Bold.ttf'', ''SourceSansPro-BoldItalic.ttf'']"

definition bundled_layout :: "path \<Rightarrow> filesystem \<Rightarrow> bool" where
  \<comment> \<open>Modelled from the spec: the installed package has the bundled directory, and the
      directory holds the files the spec names\<close>
  "bundled_layout module_file fs =
     (case fs (get_font_path module_file) of
        None \<Rightarrow> False
      | Some names \<Rightarrow> list_all (\<lambda>n. n \<in> set names) bundled_names)"

subsection \<open>Concrete inputs\<close>

definition site_file :: path where
  \<comment> \<open>\<^verbatim>\<open>__file__\<close> of an installed copy of the module\<close>
  "site_file = [''site-packages'', ''RSSpythemes'', ''fonts'', ''__init__.py'']"

definition two_fonts :: filesystem where
  "two_fonts = Map.empty(get_font_path site_file \<mapsto>
     [''SourceSansPro-Regular.ttf'', ''SourceSansPro-Bold.ttf''])"

definition mixed_fonts :: filesystem where
  "mixed_fonts = Map.empty(get_font_path site_file \<mapsto>
     [''Broken.ttf'', ''LICENSE.txt'', ''SourceSansPro-Regular.ttf''])"

definition bundled_fonts :: filesystem where
  "bundled_fonts = Map.empty(get_font_path site_file \<mapsto>
     [''SourceSansPro-Italic.ttf'', ''OFL.txt'', ''SourceSansPro-BoldItalic.ttf'',
      ''SourceSansPro-Regular.ttf'', ''SourceSansPro-Light.ttf'', ''SourceSansPro-Bold.ttf''])"

definition broken_path :: string where
  "broken_path = path_str (get_font_path site_file @ [''Broken.ttf''])"

definition regular_path :: string where
  "regular_path = path_str (get_font_path site_file @ [''SourceSansPro-Regular.ttf''])"

definition bold_path :: string where
  "bold_path = path_str (get_font_path site_file @ [''SourceSansPro-Bold.ttf''])"

definition sans_manager ::
  "string list \<Rightarrow> (string list \<Rightarrow> py_exception option \<times> string list) option
     \<Rightarrow> string list font_manager_module" where
  \<comment> \<open>a recording manager for which every file is of the family Source Sans Pro and the
      files listed in \<open>bad\<close> cannot be loaded\<close>
  "sans_manager bad rb =
     recording_manager (\<lambda>p. ''Source Sans Pro'')
       (\<lambda>p. if p \<in> set bad then Some (OtherException ''Can not load face'') else None) rb"

definition rebuild_fine :: "string list \<Rightarrow> py_exception option \<times> string list" where
  \<comment> \<open>a \<^verbatim>\<open>_rebuild\<close> that returns\<close>
  "rebuild_fine s = (None, s)"

definition rebuild_locked :: "string list \<Rightarrow> py_exception option \<times> string list" where
  \<comment> \<open>a \<^verbatim>\<open>_rebuild\<close> that cannot lock the cache file and raises\<close>
  "rebuild_locked s = (Some (OtherException ''Lock error''), s)"

definition terminal :: stdout where
  \<comment> \<open>a standard output that writes every line\<close>
  "terminal line = None"

definition closed_stdout :: stdout where
  \<comment> \<open>a standard output that was closed: every write raises ValueError\<close>
  "closed_stdout line = Some (OtherException ''I/O operation on closed file.'')"

section \<open>Properties\<close>

subsection \<open>Traces\<close>

lemma attempted_append [simp]: "attempted (a @ b) = attempted a @ attempted b"
  by (induction a) (auto split: event.splits)

lemma registered_append [simp]: "registered (a @ b) = registered a @ registered b"
  by (induction a) (auto split: event.splits option.splits)

lemma rebuilds_append [simp]: "rebuilds (a @ b) = rebuilds a @ rebuilds b"
  by (induction a) (auto split: event.splits)

lemma printed_append [simp]: "printed (a @ b) = printed a @ printed b"
  by (induction a) (auto split: event.splits)

lemma effects_append [simp]: "effects (a @ b) = effects a @ effects b"
  by (induction a) (auto split: event.splits)

lemma trace_emit [simp]: "trace (emit e w) = trace w @ [e]"
  by (simp add: emit_def)

lemma fontManager_emit [simp]: "fontManager (emit e w) = fontManager w"
  by (simp add: emit_def)

lemma fontManager_say [simp]: "fontManager (say v l w) = fontManager w"
  by (simp add: say_def)

subsection \<open>Listing the bundled directory\<close>

lemma matches_ttf_iff: "matches_ttf n \<longleftrightarrow> (\<exists>stem. n = stem @ ''.ttf'')"
  unfolding matches_ttf_def
proof
  assume h: "4 \<le> length n \<and> drop (length n - 4) n = ''.ttf''"
  have "n = take (length n - 4) n @ drop (length n - 4) n" by simp
  with h show "\<exists>stem. n = stem @ ''.ttf''" by metis
next
  assume "\<exists>stem. n = stem @ ''.ttf''"
  then show "4 \<le> length n \<and> drop (length n - 4) n = ''.ttf''" by auto
qed

lemma names_of_glob:
  "fs d = Some names \<Longrightarrow> map path_name (glob_ttf fs d) = filter matches_ttf names"
  by (simp add: glob_ttf_def path_name_def comp_def)

lemma two_sorted: "sorted [''SourceSansPro-Bold.ttf'', ''SourceSansPro-Regular.ttf'']"
  by simp

lemma matches_Regular: "matches_ttf ''SourceSansPro-Regular.ttf''"
  by (simp add: matches_ttf_def)

lemma matches_Bold: "matches_ttf ''SourceSansPro-Bold.ttf''"
  by (simp add: matches_ttf_def)

lemma scenario_sort:
  assumes "mset names = {#''SourceSansPro-Regular.ttf'', ''SourceSansPro-Bold.ttf''#}"
  shows "sort (filter matches_ttf names)
           = [''SourceSansPro-Bold.ttf'', ''SourceSansPro-Regular.ttf'']"
proof -
  let ?R = "''SourceSansPro-Regular.ttf''" and ?B = "''SourceSansPro-Bold.ttf''"
  have "set_mset (mset names) = {?R, ?B}"
    unfolding assms by (simp only: set_mset_add_mset_insert set_mset_empty)
  then have s: "set names = {?R, ?B}" by (simp only: set_mset_mset)
  have "\<forall>n \<in> set names. matches_ttf n"
    unfolding s using matches_Regular matches_Bold by blast
  then have f: "filter matches_ttf names = names" by simp
  have m: "mset [?B, ?R] = mset names"
    unfolding assms by (simp only: mset.simps add_mset_commute)
  show ?thesis
    unfolding f by (rule properties_for_sort [OF m two_sorted])
qed

lemma string_order_lexicographic:
  fixes a b :: char and x y :: string
  shows "[] \<le> y"
    and "a # x \<le> [] \<longleftrightarrow> False"
    and "a # x \<le> b # y \<longleftrightarrow> a < b \<or> a = b \<and> x \<le> y"
    and "a < b \<longleftrightarrow> (of_char a :: nat) < of_char b"
  by (simp_all add: less_char_def)

text \<open>
  C4. Whatever the bundled directory holds, \<open>list_available_fonts\<close> returns a sorted list;
  when the directory is absent the list is empty; when it exists the list has exactly the
  entries whose name is some stem followed by \<open>.ttf\<close>, each as often as the directory
  has it; and for a directory that holds exactly \<open>SourceSansPro-Regular.ttf\<close> and
  \<open>SourceSansPro-Bold.ttf\<close>, in either enumeration order, it is the list of Bold, then
  Regular. The order is the lexicographic order of strings by character code
  (\<open>string_order_lexicographic\<close>).
\<close>

theorem list_available_fonts_sorted_ttf:
  "sorted (list_available_fonts mf fs)
   \<and> (fs (get_font_path mf) = None \<longrightarrow> list_available_fonts mf fs = [])
   \<and> (\<forall>names. fs (get_font_path mf) = Some names \<longrightarrow>
         mset (list_available_fonts mf fs)
           = mset (filter (\<lambda>n. \<exists>stem. n = stem @ ''.ttf'') names))
   \<and> (\<forall>names. fs (get_font_path mf) = Some names
         \<and> mset names = {#''SourceSansPro-Regular.ttf'', ''SourceSansPro-Bold.ttf''#} \<longrightarrow>
         list_available_fonts mf fs
           = [''SourceSansPro-Bold.ttf'', ''SourceSansPro-Regular.ttf''])"
proof (intro conjI allI impI)
  show "sorted (list_available_fonts mf fs)"
    by (simp add: list_available_fonts_def Let_def)
  show "list_available_fonts mf fs = []" if "fs (get_font_path mf) = None"
    using that by (simp add: list_available_fonts_def path_exists_def)
  show "mset (list_available_fonts mf fs)
          = mset (filter (\<lambda>n. \<exists>stem. n = stem @ ''.ttf'') names)"
    if "fs (get_font_path mf) = Some names" for names
  proof -
    have "matches_ttf = (\<lambda>n. \<exists>stem. n = stem @ ''.ttf'')"
      by (rule ext) (rule matches_ttf_iff)
    then show ?thesis
      using that by (simp add: list_available_fonts_def path_exists_def Let_def names_of_glob)
  qed
  show "list_available_fonts mf fs = [''SourceSansPro-Bold.ttf'', ''SourceSansPro-Regular.ttf'']"
    if h: "fs (get_font_path mf) = Some names
        \<and> mset names = {#''SourceSansPro-Regular.ttf'', ''SourceSansPro-Bold.ttf''#}" for names
  proof -
    from h have "list_available_fonts mf fs = sort (filter matches_ttf names)"
      by (simp add: list_available_fonts_def path_exists_def Let_def names_of_glob)
    with h show ?thesis by (simp only: scenario_sort)
  qed
qed

theorem list_available_fonts_sorted_ttf_witness:
  "list_available_fonts site_file two_fonts
     = [''SourceSansPro-Bold.ttf'', ''SourceSansPro-Regular.ttf'']
   \<and> list_available_fonts site_file Map.empty = []"
proof -
  have a: "two_fonts (get_font_path site_file)
             = Some [''SourceSansPro-Regular.ttf'', ''SourceSansPro-Bold.ttf'']
      \<and> mset [''SourceSansPro-Regular.ttf'', ''SourceSansPro-Bold.ttf'']
          = {#''SourceSansPro-Regular.ttf'', ''SourceSansPro-Bold.ttf''#}"
    by (simp add: two_fonts_def)
  have b: "(Map.empty :: filesystem) (get_font_path site_file) = None" by simp
  from list_available_fonts_sorted_ttf [of site_file two_fonts] a
  have "list_available_fonts site_file two_fonts
          = [''SourceSansPro-Bold.ttf'', ''SourceSansPro-Regular.ttf'']"
    by blast
  moreover from list_available_fonts_sorted_ttf [of site_file Map.empty] b
  have "list_available_fonts site_file Map.empty = []" by blast
  ultimately show ?thesis by blast
qed

subsection \<open>The weight mapping\<close>

text \<open>
  C6. \<open>get_source_sans_weights\<close> takes no argument and reads neither the filesystem nor
  the font manager: it is a constant. Its keys are regular, italic, bold and bold_italic,
  in this order and no others, and they map to the four file names of Source Sans Pro.
\<close>

theorem get_source_sans_weights_fixed:
  "map fst get_source_sans_weights = [''regular'', ''italic'', ''bold'', ''bold_italic'']
   \<and> map_of get_source_sans_weights ''regular'' = Some ''SourceSansPro-Regular.ttf''
   \<and> map_of get_source_sans_weights ''italic'' = Some ''SourceSansPro-Italic.ttf''
   \<and> map_of get_source_sans_weights ''bold'' = Some ''SourceSansPro-Bold.ttf''
   \<and> map_of get_source_sans_weights ''bold_italic'' = Some ''SourceSansPro-BoldItalic.ttf''
   \<and> dom (map_of get_source_sans_weights) = {''regular'', ''italic'', ''bold'', ''bold_italic''}
   \<and> card (dom (map_of get_source_sans_weights)) = 4"
  by (simp add: get_source_sans_weights_def dom_map_of_conv_image_fst)

subsection \<open>The loop over the font files\<close>

lemma attempted_say [simp]: "attempted (trace (say v l w)) = attempted (trace w)"
  by (simp add: say_def)

lemma registered_say [simp]: "registered (trace (say v l w)) = registered (trace w)"
  by (simp add: say_def)

lemma rebuilds_say [simp]: "rebuilds (trace (say v l w)) = rebuilds (trace w)"
  by (simp add: say_def)

lemma effects_say [simp]: "effects (trace (say v l w)) = effects (trace w)"
  by (simp add: say_def)

lemma printed_say [simp]:
  "printed (trace (say v l w)) = printed (trace w) @ (if v then [l] else [])"
  by (simp add: say_def)

lemma try_addfont_unbound: "fm G = None \<Longrightarrow> try_addfont G p w = (Some (NameError ''fm''), w)"
  by (simp add: try_addfont_def)


lemma trace_try_addfont:
  "trace (snd (try_addfont G p w)) =
     trace w @ (case fm G of None \<Rightarrow> [] | Some m \<Rightarrow> [AddFont p (fst (try_addfont G p w))])"
  by (simp add: try_addfont_def split: option.splits prod.splits)

lemma loop_count:
  "fst (loop_written G v fs c w) + length (registered (trace w))
     = c + length (registered (trace (snd (loop_written G v fs c w))))"
proof (induction fs arbitrary: c w)
  case Nil
  show ?case by simp
next
  case (Cons f fs)
  obtain r w' where t: "try_addfont G (path_str f) w = (r, w')" by (cases "try_addfont G (path_str f) w")
  have tr: "trace w' = trace w @ (case fm G of None \<Rightarrow> [] | Some m \<Rightarrow> [AddFont (path_str f) r])"
    using trace_try_addfont [of G "path_str f" w] t by (simp split: option.splits)
  show ?case
  proof (cases r)
    case None
    then have "fm G \<noteq> None" using t by (auto simp: try_addfont_def split: option.splits)
    then have "registered (trace w') = registered (trace w) @ [path_str f]"
      using tr None by (auto)
    then show ?thesis
      using t None Cons.IH [of "c + 1" "say v (line_registered f) w'"]
      by simp
  next
    case (Some e)
    then have "registered (trace w') = registered (trace w)"
      using tr by (auto split: option.splits)
    then show ?thesis
      using t Some
        Cons.IH [of c "say v (line_failed f e) w'"]
      by simp
  qed
qed

lemma loop_attempted:
  "fm G = Some m \<Longrightarrow>
   attempted (trace (snd (loop_written G v fs c w))) = attempted (trace w) @ map path_str fs"
proof (induction fs arbitrary: c w)
  case Nil
  show ?case by simp
next
  case (Cons f fs)
  obtain r w' where t: "try_addfont G (path_str f) w = (r, w')" by (cases "try_addfont G (path_str f) w")
  have tr: "attempted (trace w') = attempted (trace w) @ [path_str f]"
    using trace_try_addfont [of G "path_str f" w] t Cons.prems by simp
  show ?case
    using t tr Cons.IH [OF Cons.prems]
    by (cases r) simp_all
qed

lemma loop_rebuilds:
  "rebuilds (trace (snd (loop_written G v fs c w))) = rebuilds (trace w)"
proof (induction fs arbitrary: c w)
  case Nil
  show ?case by simp
next
  case (Cons f fs)
  obtain r w' where t: "try_addfont G (path_str f) w = (r, w')" by (cases "try_addfont G (path_str f) w")
  have tr: "rebuilds (trace w') = rebuilds (trace w)"
    using trace_try_addfont [of G "path_str f" w] t by (simp split: option.splits)
  show ?case
    using t tr Cons.IH
    by (cases r) simp_all
qed

lemma loop_quiet:
  "printed (trace (snd (loop_written G False fs c w))) = printed (trace w)"
proof (induction fs arbitrary: c w)
  case Nil
  show ?case by simp
next
  case (Cons f fs)
  obtain r w' where t: "try_addfont G (path_str f) w = (r, w')" by (cases "try_addfont G (path_str f) w")
  have tr: "printed (trace w') = printed (trace w)"
    using trace_try_addfont [of G "path_str f" w] t by (simp split: option.splits)
  show ?case
    using t tr Cons.IH
    by (cases r) simp_all
qed

lemma same_effects_say: "same_effects w1 w2 \<Longrightarrow> same_effects (say v l w1) (say v' l' w2)"
  by (simp add: same_effects_def)

lemma same_effects_emit: "same_effects w1 w2 \<Longrightarrow> same_effects (emit e w1) (emit e w2)"
  by (simp add: same_effects_def)

lemma same_effects_try_addfont:
  "same_effects w1 w2 \<Longrightarrow>
   fst (try_addfont G p w1) = fst (try_addfont G p w2)
   \<and> same_effects (snd (try_addfont G p w1)) (snd (try_addfont G p w2))"
  by (simp add: same_effects_def try_addfont_def split: option.splits prod.splits)

lemma loop_verbose:
  "same_effects w1 w2 \<Longrightarrow>
   fst (loop_written G v fs c w1) = fst (loop_written G v' fs c w2)
   \<and> same_effects (snd (loop_written G v fs c w1)) (snd (loop_written G v' fs c w2))"
proof (induction fs arbitrary: c w1 w2)
  case Nil
  then show ?case by simp
next
  case (Cons f fs)
  obtain r u1 where t1: "try_addfont G (path_str f) w1 = (r, u1)" by (cases "try_addfont G (path_str f) w1")
  obtain r' u2 where t2: "try_addfont G (path_str f) w2 = (r', u2)" by (cases "try_addfont G (path_str f) w2")
  from same_effects_try_addfont [OF Cons.prems, of G "path_str f"] t1 t2
  have eq: "r' = r" and se: "same_effects u1 u2" by simp_all
  show ?case
  proof (cases r)
    case None
    show ?thesis
      using t1 t2 eq None
        Cons.IH [OF same_effects_say [OF se, of v "line_registered f" v' "line_registered f"], of "c + 1"]
      by simp
  next
    case (Some e)
    let ?l = "line_failed f e"
    show ?thesis
      using t1 t2 eq Some
        Cons.IH [OF same_effects_say [OF se, of v ?l v' ?l], of c]
      by simp
  qed
qed

subsection \<open>The cases of a registration\<close>

lemma loop_printed_length:
  "length (printed (trace (snd (loop_written G v fs c w))))
     = length (printed (trace w)) + (if v then length fs else 0)"
proof (induction fs arbitrary: c w)
  case Nil
  show ?case by simp
next
  case (Cons f fs)
  obtain r w' where t: "try_addfont G (path_str f) w = (r, w')" by (cases "try_addfont G (path_str f) w")
  have tr: "printed (trace w') = printed (trace w)"
    using trace_try_addfont [of G "path_str f" w] t by (simp split: option.splits)
  show ?case
    using t tr Cons.IH
    by (cases r) simp_all
qed

lemma trace_try_rebuild:
  "trace (snd (try_rebuild G w)) =
     trace w @ (case fm G of None \<Rightarrow> [] | Some m \<Rightarrow> [Rebuild (fst (try_rebuild G w))])"
  by (simp add: try_rebuild_def Let_def split: option.splits prod.splits)

lemma try_rebuild_absent:
  "fm G = Some m \<Longrightarrow> rebuild m = None \<Longrightarrow> tolerated (fst (try_rebuild G w))"
  by (simp add: try_rebuild_def Let_def)

lemma same_effects_try_rebuild:
  "same_effects w1 w2 \<Longrightarrow>
   fst (try_rebuild G w1) = fst (try_rebuild G w2)
   \<and> same_effects (snd (try_rebuild G w1)) (snd (try_rebuild G w2))"
  by (simp add: same_effects_def try_rebuild_def Let_def split: option.splits prod.splits)

lemma register_unavailable:
  "\<not> MATPLOTLIB_AVAILABLE G \<Longrightarrow>
   register_written G mf fs v w =
     (Inl (ImportError required_message), w)"
  by (simp add: register_written_def)

lemma register_absent:
  "MATPLOTLIB_AVAILABLE G \<Longrightarrow> \<not> path_exists fs (get_font_path mf) \<Longrightarrow>
   register_written G mf fs v w =
     (Inr False,
      say v (line_not_found (get_font_path mf))
        (emit (FsExists (get_font_path mf)) w))"
  by (simp add: register_written_def Let_def)

lemma register_empty:
  "MATPLOTLIB_AVAILABLE G \<Longrightarrow> path_exists fs (get_font_path mf) \<Longrightarrow>
   glob_ttf fs (get_font_path mf) = [] \<Longrightarrow>
   register_written G mf fs v w =
     (Inr False,
      say v (line_no_files (get_font_path mf))
        (emit (FsGlob (get_font_path mf)) (emit (FsExists (get_font_path mf)) w)))"
  by (simp add: register_written_def Let_def)

lemma register_none:
  "MATPLOTLIB_AVAILABLE G \<Longrightarrow> path_exists fs (get_font_path mf) \<Longrightarrow>
   glob_ttf fs (get_font_path mf) \<noteq> [] \<Longrightarrow> fst (after_loop G mf fs v w) = 0 \<Longrightarrow>
   register_written G mf fs v w = (Inr False, snd (after_loop G mf fs v w))"
  by (simp add: register_written_def Let_def after_loop_def case_prod_beta)

lemma register_some:
  "MATPLOTLIB_AVAILABLE G \<Longrightarrow> path_exists fs (get_font_path mf) \<Longrightarrow>
   glob_ttf fs (get_font_path mf) \<noteq> [] \<Longrightarrow> 0 < fst (after_loop G mf fs v w) \<Longrightarrow>
   register_written G mf fs v w =
     (let r = fst (try_rebuild G (snd (after_loop G mf fs v w)));
          w4 = snd (try_rebuild G (snd (after_loop G mf fs v w)))
      in if tolerated r then
           (Inr True,
            say v (line_success (fst (after_loop G mf fs v w))) w4)
         else (Inl (the r), w4))"
  by (cases "fst (try_rebuild G (snd (after_loop G mf fs v w)))")
    (simp_all add: register_written_def Let_def after_loop_def case_prod_beta)

lemma glob_absent: "\<not> path_exists fs d \<Longrightarrow> glob_ttf fs d = []"
  by (simp add: path_exists_def glob_ttf_def)

lemma trace_start [simp]: "trace (start s) = []"
  by (simp add: start_def)

lemma fontManager_start [simp]: "fontManager (start s) = s"
  by (simp add: start_def)

lemma after_loop_count:
  "fst (after_loop G mf fs v (start s)) = length (registered (trace (snd (after_loop G mf fs v (start s)))))"
  using loop_count [of G v "glob_ttf fs (get_font_path mf)" 0
      "emit (FsGlob (get_font_path mf)) (emit (FsExists (get_font_path mf)) (start s))"]
  by (simp add: after_loop_def)

lemma after_loop_rebuilds: "rebuilds (trace (snd (after_loop G mf fs v (start s)))) = []"
  by (simp add: after_loop_def loop_rebuilds)

lemma after_loop_attempted:
  "fm G = Some m \<Longrightarrow>
   attempted (trace (snd (after_loop G mf fs v (start s)))) = map path_str (glob_ttf fs (get_font_path mf))"
  by (simp add: after_loop_def loop_attempted)

lemma after_loop_printed:
  "length (printed (trace (snd (after_loop G mf fs v (start s)))))
     = (if v then length (glob_ttf fs (get_font_path mf)) else 0)"
  by (simp add: after_loop_def loop_printed_length)

lemma register_trace_cases:
  assumes av: "MATPLOTLIB_AVAILABLE G"
  shows "(glob_ttf fs (get_font_path mf) = []
          \<and> fst (register_written G mf fs v (start s)) = Inr False
          \<and> attempted (trace (snd (register_written G mf fs v (start s)))) = []
          \<and> registered (trace (snd (register_written G mf fs v (start s)))) = []
          \<and> rebuilds (trace (snd (register_written G mf fs v (start s)))) = []
          \<and> length (printed (trace (snd (register_written G mf fs v (start s))))) = (if v then 1 else 0))
       \<or> (glob_ttf fs (get_font_path mf) \<noteq> []
          \<and> fst (register_written G mf fs v (start s)) = Inr False
          \<and> trace (snd (register_written G mf fs v (start s))) = trace (snd (after_loop G mf fs v (start s)))
          \<and> registered (trace (snd (after_loop G mf fs v (start s)))) = [])
       \<or> (glob_ttf fs (get_font_path mf) \<noteq> []
          \<and> registered (trace (snd (after_loop G mf fs v (start s)))) \<noteq> []
          \<and> fst (register_written G mf fs v (start s))
              = (if tolerated (fst (try_rebuild G (snd (after_loop G mf fs v (start s))))) then Inr True
                 else Inl (the (fst (try_rebuild G (snd (after_loop G mf fs v (start s)))))))
          \<and> effects (trace (snd (register_written G mf fs v (start s))))
              = effects (trace (snd (after_loop G mf fs v (start s))))
                @ [Rebuild (fst (try_rebuild G (snd (after_loop G mf fs v (start s)))))]
          \<and> length (printed (trace (snd (register_written G mf fs v (start s)))))
              = (if v then length (glob_ttf fs (get_font_path mf))
                    + (if tolerated (fst (try_rebuild G (snd (after_loop G mf fs v (start s))))) then 1 else 0)
                 else 0))"
    (is "?A \<or> ?B \<or> ?C")
proof -
  let ?d = "get_font_path mf"
  let ?L = "after_loop G mf fs v (start s)"
  consider (absent) "\<not> path_exists fs ?d"
    | (empty) "path_exists fs ?d" "glob_ttf fs ?d = []"
    | (none) "path_exists fs ?d" "glob_ttf fs ?d \<noteq> []" "fst ?L = 0"
    | (some) "path_exists fs ?d" "glob_ttf fs ?d \<noteq> []" "0 < fst ?L"
    by fastforce
  then show ?thesis
  proof cases
    case absent
    then have ?A
      by (simp add: register_absent [OF av absent] glob_absent)
    then show ?thesis by blast
  next
    case empty
    then have ?A
      by (simp add: register_empty [OF av empty])
    then show ?thesis by blast
  next
    case none
    have "registered (trace (snd ?L)) = []"
      using none(3) after_loop_count [of G mf fs v s] by simp
    then have ?B
      using none by (simp add: register_none [OF av none])
    then show ?thesis by blast
  next
    case some
    have r: "registered (trace (snd ?L)) \<noteq> []"
      using some(3) after_loop_count [of G mf fs v s] by auto
    have "fm G \<noteq> None"
    proof
      assume "fm G = None"
      then have "\<And>fs c w. fst (loop_written G v fs c w) = c"
      proof -
        fix fs c w
        assume u: "fm G = None"
        show "fst (loop_written G v fs c w) = c"
          by (induction fs arbitrary: c w) (simp_all add: try_addfont_unbound [OF u])
      qed
      then have "fst ?L = 0" by (simp add: after_loop_def)
      with some(3) show False by simp
    qed
    then obtain m where m: "fm G = Some m" by blast
    have tr: "trace (snd (try_rebuild G (snd ?L)))
                = trace (snd ?L) @ [Rebuild (fst (try_rebuild G (snd ?L)))]"
      using trace_try_rebuild [of G "snd ?L"] m by simp
    have ?C
      using some(2) r tr
      by (simp add: register_some [OF av some] Let_def after_loop_printed)
    then show ?thesis by blast
  qed
qed

lemma attempted_effects [simp]: "attempted (effects t) = attempted t"
  by (induction t) (auto split: event.splits)

lemma registered_effects [simp]: "registered (effects t) = registered t"
  by (induction t) (auto split: event.splits option.splits)

lemma rebuilds_effects [simp]: "rebuilds (effects t) = rebuilds t"
  by (induction t) (auto split: event.splits)

lemma effects_quiet: "printed t = [] \<Longrightarrow> effects t = t"
  by (induction t) (auto split: event.splits)

lemma register_summary:
  fixes G :: "'fm module_globals" and mf :: path and fs :: filesystem and v :: bool and s :: 'fm
  assumes av: "MATPLOTLIB_AVAILABLE G" and m: "fm G = Some m"
  defines "out \<equiv> register_written G mf fs v (start s)"
  shows "attempted (trace (snd out)) = map path_str (glob_ttf fs (get_font_path mf))"
    and "registered (trace (snd out)) = [] \<Longrightarrow> fst out = Inr False \<and> rebuilds (trace (snd out)) = []"
    and "registered (trace (snd out)) \<noteq> [] \<Longrightarrow>
           \<exists>r pre. rebuilds (trace (snd out)) = [r]
             \<and> fst out = (if tolerated r then Inr True else Inl (the r))
             \<and> effects (trace (snd out)) = pre @ [Rebuild r]
             \<and> attempted pre = map path_str (glob_ttf fs (get_font_path mf))
             \<and> registered pre = registered (trace (snd out))
             \<and> (rebuild m = None \<longrightarrow> tolerated r)
             \<and> length (printed (trace (snd out)))
                 = (if v then length (glob_ttf fs (get_font_path mf)) + (if tolerated r then 1 else 0) else 0)"
proof -
  let ?L = "after_loop G mf fs v (start s)"
  let ?r = "fst (try_rebuild G (snd ?L))"
  let ?files = "map path_str (glob_ttf fs (get_font_path mf))"
  note c = register_trace_cases [OF av, of fs mf v s, folded out_def]
  have aL: "attempted (trace (snd ?L)) = ?files"
    by (rule after_loop_attempted [OF m])
  have rL: "rebuilds (trace (snd ?L)) = []"
    by (rule after_loop_rebuilds)
  have via: "attempted (trace (snd out)) = attempted (trace (snd ?L))
      \<and> registered (trace (snd out)) = registered (trace (snd ?L))
      \<and> rebuilds (trace (snd out)) = [?r]"
    if e: "effects (trace (snd out)) = effects (trace (snd ?L)) @ [Rebuild ?r]"
  proof -
    have "attempted (effects (trace (snd out))) = attempted (trace (snd ?L))"
      and "registered (effects (trace (snd out))) = registered (trace (snd ?L))"
      and "rebuilds (effects (trace (snd out))) = [?r]"
      unfolding e using rL by simp_all
    then show ?thesis by simp
  qed
  from c show "attempted (trace (snd out)) = ?files"
  proof (elim disjE conjE)
    assume "glob_ttf fs (get_font_path mf) = []" "attempted (trace (snd out)) = []"
    then show ?thesis by simp
  next
    assume "trace (snd out) = trace (snd ?L)"
    then show ?thesis using aL by simp
  next
    assume "effects (trace (snd out)) = effects (trace (snd ?L)) @ [Rebuild ?r]"
    from via [OF this] show ?thesis using aL by simp
  qed
  show "fst out = Inr False \<and> rebuilds (trace (snd out)) = []"
    if z: "registered (trace (snd out)) = []"
    using c
  proof (elim disjE conjE)
    assume "fst out = Inr False" "rebuilds (trace (snd out)) = []"
    then show ?thesis by simp
  next
    assume "fst out = Inr False" "trace (snd out) = trace (snd ?L)"
    then show ?thesis using rL by simp
  next
    assume "registered (trace (snd ?L)) \<noteq> []"
      "effects (trace (snd out)) = effects (trace (snd ?L)) @ [Rebuild ?r]"
    with via z show ?thesis by simp
  qed
  show "\<exists>r pre. rebuilds (trace (snd out)) = [r]
             \<and> fst out = (if tolerated r then Inr True else Inl (the r))
             \<and> effects (trace (snd out)) = pre @ [Rebuild r]
             \<and> attempted pre = map path_str (glob_ttf fs (get_font_path mf))
             \<and> registered pre = registered (trace (snd out))
             \<and> (rebuild m = None \<longrightarrow> tolerated r)
             \<and> length (printed (trace (snd out)))
                 = (if v then length (glob_ttf fs (get_font_path mf)) + (if tolerated r then 1 else 0) else 0)"
    if ne: "registered (trace (snd out)) \<noteq> []"
  proof -
    from c ne have C: "fst out = (if tolerated ?r then Inr True else Inl (the ?r))"
      "effects (trace (snd out)) = effects (trace (snd ?L)) @ [Rebuild ?r]"
      "length (printed (trace (snd out)))
         = (if v then length (glob_ttf fs (get_font_path mf)) + (if tolerated ?r then 1 else 0) else 0)"
      by (elim disjE conjE; simp)+
    note V = via [OF C(2)]
    have r2: "registered (effects (trace (snd ?L))) = registered (trace (snd out))"
      using V by simp
    have r3: "attempted (effects (trace (snd ?L))) = ?files"
      using aL by simp
    have r4: "rebuild m = None \<longrightarrow> tolerated ?r"
      using try_rebuild_absent [OF m] by blast
    show ?thesis
    proof (intro exI conjI)
      show "rebuilds (trace (snd out)) = [?r]" using V by simp
      show "fst out = (if tolerated ?r then Inr True else Inl (the ?r))" by (rule C(1))
      show "effects (trace (snd out)) = effects (trace (snd ?L)) @ [Rebuild ?r]" by (rule C(2))
      show "attempted (effects (trace (snd ?L))) = ?files" by (rule r3)
      show "registered (effects (trace (snd ?L))) = registered (trace (snd out))" by (rule r2)
      show "rebuild m = None \<longrightarrow> tolerated ?r" by (rule r4)
      show "length (printed (trace (snd out)))
         = (if v then length (glob_ttf fs (get_font_path mf)) + (if tolerated ?r then 1 else 0) else 0)"
        by (rule C(3))
    qed
  qed
qed

subsection \<open>From the written call to the call\<close>

lemma writes_quiet [simp]: "writes sys_stdout False"
  by (simp add: writes_def)

lemma print_if_writes:
  "writes sys_stdout v \<Longrightarrow> print_if sys_stdout v l w = (None, say v l w)"
  by (simp add: writes_def print_if_def print_line_def say_def)

lemma try_block_writes:
  "writes sys_stdout v \<Longrightarrow>
   try_block G sys_stdout v f c w =
     (case try_addfont G (path_str f) w of
        (Some e, w') \<Rightarrow> (Some e, c, w')
      | (None, w') \<Rightarrow> (None, c + 1, say v (line_registered f) w'))"
  by (simp add: try_block_def print_if_writes split: prod.splits option.splits)

lemma loop_writes:
  assumes wr: "writes sys_stdout v"
  shows "register_loop G sys_stdout v fs c w
    = (Inr (fst (loop_written G v fs c w)), snd (loop_written G v fs c w))"
proof (induction fs arbitrary: c w)
  case Nil
  show ?case by simp
next
  case (Cons f fs)
  obtain r w' where t: "try_addfont G (path_str f) w = (r, w')"
    by (cases "try_addfont G (path_str f) w")
  show ?case
    using t Cons.IH
    by (cases r) (simp_all add: try_block_writes [OF wr] print_if_writes [OF wr])
qed

lemma register_writes:
  assumes wr: "writes sys_stdout v"
  shows "register_source_sans_fonts G mf fs sys_stdout v w = register_written G mf fs v w"
proof -
  let ?d = "get_font_path mf"
  let ?w2 = "emit (FsGlob ?d) (emit (FsExists ?d) w)"
  obtain c w3 where L: "loop_written G v (glob_ttf fs ?d) 0 ?w2 = (c, w3)"
    by (cases "loop_written G v (glob_ttf fs ?d) 0 ?w2")
  obtain r w4 where R: "try_rebuild G w3 = (r, w4)"
    by (cases "try_rebuild G w3")
  show ?thesis
    using L R
    by (cases r)
       (simp_all add: register_source_sans_fonts_def register_written_def Let_def
          loop_writes [OF wr] print_if_writes [OF wr] then_return_def)
qed

lemma register_quiet_any_stdout:
  "register_source_sans_fonts G mf fs sys_stdout False w = register_written G mf fs False w"
  by (rule register_writes) simp

lemma register_guard:
  "\<not> MATPLOTLIB_AVAILABLE G \<Longrightarrow>
   register_source_sans_fonts G mf fs sys_stdout v w = (Inl (ImportError required_message), w)"
  by (simp add: register_source_sans_fonts_def)

subsection \<open>The mapped files are bundled\<close>

text \<open>
  C5. For a package installed with the bundled directory as the spec lays it out (the four
  typeface files of Source Sans Pro, and any further entries beside them), every file name
  that is a value of \<open>get_source_sans_weights\<close> is an element of
  \<open>list_available_fonts\<close>.
\<close>

theorem weights_are_bundled:
  "bundled_layout mf fs \<Longrightarrow>
   set (map snd get_source_sans_weights) \<subseteq> set (list_available_fonts mf fs)"
proof -
  assume l: "bundled_layout mf fs"
  then obtain names where n: "fs (get_font_path mf) = Some names"
    and a: "set bundled_names \<subseteq> set names"
    by (auto simp: bundled_layout_def list_all_iff split: option.splits)
  have "list_available_fonts mf fs = sort (filter matches_ttf names)"
    using n by (simp add: list_available_fonts_def path_exists_def Let_def names_of_glob)
  then have s: "set (list_available_fonts mf fs) = {x \<in> set names. matches_ttf x}"
    by simp
  have m: "\<forall>x \<in> set bundled_names. matches_ttf x"
    by (simp add: bundled_names_def matches_ttf_def)
  have v: "map snd get_source_sans_weights = bundled_names"
    by (simp add: get_source_sans_weights_def bundled_names_def)
  show ?thesis
    unfolding v s using a m by blast
qed

theorem weights_are_bundled_witness:
  "bundled_layout site_file bundled_fonts
   \<and> set (map snd get_source_sans_weights) \<subseteq> set (list_available_fonts site_file bundled_fonts)"
proof -
  have l: "bundled_layout site_file bundled_fonts"
    by (simp add: bundled_layout_def bundled_fonts_def bundled_names_def)
  from weights_are_bundled [OF l] l show ?thesis by blast
qed

subsection \<open>Evaluating a call\<close>

lemmas run_defs =
  register_source_sans_fonts_def import_module_def Let_def get_font_path_def site_file_def
  path_exists_def glob_ttf_def matches_ttf_def two_fonts_def mixed_fonts_def try_addfont_def
  try_block_def try_rebuild_def sans_manager_def recording_manager_def emit_def print_if_def
  print_line_def then_return_def terminal_def closed_stdout_def start_def
  path_str_def path_name_def rebuild_fine_def rebuild_locked_def broken_path_def
  regular_path_def bold_path_def is_source_sans_available_def

lemma terminal_writes: "writes terminal v"
  by (simp add: writes_def terminal_def)

subsection \<open>What a registration returns\<close>

text \<open>
  C1, with the rebuild of the font cache taken into account, for a call none of whose prints
  can raise (\<open>verbose\<close> is false, or standard output writes every line).
  \<open>register_source_sans_fonts\<close> returns true exactly when at least one font file was
  registered during the call and the rebuild of the font cache that follows raised nothing
  but AttributeError. With the font manager available, it returns false when the font
  directory does not exist, when the directory holds no \<open>.ttf\<close> file, and when every
  registration attempt failed.
\<close>

theorem register_true_iff_registered_and_rebuilt:
  fixes matplotlib :: "'fm font_manager_module option"
    and mf :: path and fs :: filesystem and sys_stdout :: stdout and v :: bool and s :: 'fm
  assumes wr: "writes sys_stdout v"
  defines "out \<equiv>
    register_source_sans_fonts (import_module matplotlib) mf fs sys_stdout v (start s)"
  shows "(fst out = Inr True \<longleftrightarrow>
            registered (trace (snd out)) \<noteq> [] \<and> list_all tolerated (rebuilds (trace (snd out))))
    \<and> (matplotlib \<noteq> None \<and> \<not> path_exists fs (get_font_path mf) \<longrightarrow> fst out = Inr False)
    \<and> (matplotlib \<noteq> None \<and> glob_ttf fs (get_font_path mf) = [] \<longrightarrow> fst out = Inr False)
    \<and> (matplotlib \<noteq> None \<and> registered (trace (snd out)) = [] \<longrightarrow> fst out = Inr False)"
proof (cases matplotlib)
  case None
  then have "out = (Inl (ImportError required_message), start s)"
    by (simp add: out_def register_guard import_module_def)
  with None show ?thesis by simp
next
  case (Some m)
  have av: "MATPLOTLIB_AVAILABLE (import_module matplotlib)"
    and b: "fm (import_module matplotlib) = Some m"
    using Some by (simp_all add: import_module_def)
  have eq: "out = register_written (import_module matplotlib) mf fs v (start s)"
    unfolding out_def by (rule register_writes [OF wr])
  note S = register_summary [OF av b, of mf fs v s, folded eq]
  have z: "fst out = Inr False" if "registered (trace (snd out)) = []"
    using S(2) [OF that] by simp
  have a: "attempted (trace (snd out)) = []" if "glob_ttf fs (get_font_path mf) = []"
    using S(1) that by simp
  have sub: "registered t = []" if "attempted t = []" for t
    using that by (induction t) (auto split: event.splits option.splits)
  have one: "fst out = Inr True \<longleftrightarrow>
      registered (trace (snd out)) \<noteq> [] \<and> list_all tolerated (rebuilds (trace (snd out)))"
  proof (cases "registered (trace (snd out)) = []")
    case True
    with z show ?thesis by simp
  next
    case False
    from S(3) [OF False] obtain r where r: "rebuilds (trace (snd out)) = [r]"
      "fst out = (if tolerated r then Inr True else Inl (the r))" by blast
    with False show ?thesis by simp
  qed
  from one z a sub show ?thesis
    using glob_absent [of fs "get_font_path mf"] by blast
qed

theorem register_true_iff_registered_and_rebuilt_witness:
  "fst (register_source_sans_fonts (import_module (Some (sans_manager [broken_path] None)))
          site_file mixed_fonts terminal True (start [])) = Inr True
   \<and> registered (trace (snd (register_source_sans_fonts
          (import_module (Some (sans_manager [broken_path] None)))
          site_file mixed_fonts terminal True (start [])))) = [regular_path]
   \<and> fst (register_source_sans_fonts (import_module (Some (sans_manager [] None)))
          site_file Map.empty terminal True (start [])) = Inr False"
proof -
  let ?G = "Some (sans_manager [broken_path] None)"
  let ?H = "Some (sans_manager [] None)"
  let ?out = "register_source_sans_fonts (import_module ?G) site_file mixed_fonts terminal True (start [])"
  have t: "trace (snd ?out) =
    [FsExists (get_font_path site_file), FsGlob (get_font_path site_file),
     AddFont broken_path (Some (OtherException ''Can not load face'')),
     Print (line_failed (get_font_path site_file @ [''Broken.ttf'']) (OtherException ''Can not load face'')),
     AddFont regular_path None,
     Print (line_registered (get_font_path site_file @ [''SourceSansPro-Regular.ttf''])),
     Rebuild (Some (AttributeError ''module has no attribute _rebuild'')),
     Print (line_success 1)]"
    by (simp add: run_defs)
  have h: "registered (trace (snd ?out)) \<noteq> [] \<and> list_all tolerated (rebuilds (trace (snd ?out)))"
    unfolding t by simp
  have g: "?H \<noteq> None \<and> \<not> path_exists Map.empty (get_font_path site_file)"
    by (simp add: path_exists_def)
  have r: "registered (trace (snd ?out)) = [regular_path]"
    unfolding t by simp
  from register_true_iff_registered_and_rebuilt
    [OF terminal_writes, where matplotlib = ?G and mf = site_file and fs = mixed_fonts
      and v = True and s = "[]"] h
  have 1: "fst ?out = Inr True" by blast
  from register_true_iff_registered_and_rebuilt
    [OF terminal_writes, where matplotlib = ?H and mf = site_file and fs = Map.empty
      and v = True and s = "[]"] g
  have 2: "fst (register_source_sans_fonts (import_module ?H) site_file Map.empty terminal True (start []))
      = Inr False" by blast
  from 1 r 2 show ?thesis by blast
qed

text \<open>
  The claim without the condition on the rebuild fails: both files of the directory are
  registered, the rebuild raises, and the call raises instead of returning true.
\<close>

theorem register_true_iff_registered_counterexample:
  "\<not> (fst (register_source_sans_fonts (import_module (Some (sans_manager [] (Some rebuild_locked))))
            site_file two_fonts terminal False (start [])) = Inr True
       \<longleftrightarrow> registered (trace (snd (register_source_sans_fonts
            (import_module (Some (sans_manager [] (Some rebuild_locked))))
            site_file two_fonts terminal False (start [])))) \<noteq> [])"
  by (simp add: run_defs)

text \<open>
  C2, with the rebuild of the font cache taken into account. Without the font manager,
  \<open>register_source_sans_fonts\<close> raises the ImportError of its guard and leaves the state as
  it was: nothing was read from the filesystem and nothing was handed to the font manager.
  This holds for every standard output. With the font manager, and when no print of the
  call can raise (\<open>verbose\<close> is false, or standard output writes every line), the only
  exception that leaves the call is one the rebuild of the font cache raised, other than
  AttributeError, after at least one file was registered; when the rebuild raises no such
  exception the call returns a boolean.
\<close>

theorem register_raises_only_guard_or_rebuild:
  fixes matplotlib :: "'fm font_manager_module option"
    and mf :: path and fs :: filesystem and sys_stdout :: stdout and v :: bool and s :: 'fm
  defines "out \<equiv>
    register_source_sans_fonts (import_module matplotlib) mf fs sys_stdout v (start s)"
  shows "(\<forall>w. matplotlib = None \<longrightarrow>
            register_source_sans_fonts (import_module matplotlib) mf fs sys_stdout v w
              = (Inl (ImportError required_message), w))
    \<and> (\<forall>e. writes sys_stdout v \<and> matplotlib \<noteq> None \<and> fst out = Inl e \<longrightarrow>
            rebuilds (trace (snd out)) = [Some e] \<and> \<not> is_AttributeError e
            \<and> registered (trace (snd out)) \<noteq> [])
    \<and> (writes sys_stdout v \<and> matplotlib \<noteq> None
          \<and> list_all tolerated (rebuilds (trace (snd out))) \<longrightarrow>
            fst out = Inr (registered (trace (snd out)) \<noteq> []))"
proof (cases matplotlib)
  case None
  then show ?thesis
    by (simp add: register_guard import_module_def)
next
  case sm: (Some m)
  show ?thesis
  proof (cases "writes sys_stdout v")
    case False
    with sm show ?thesis by simp
  next
    case wr: True
    have av: "MATPLOTLIB_AVAILABLE (import_module matplotlib)"
      and b: "fm (import_module matplotlib) = Some m"
      using sm by (simp_all add: import_module_def)
    have eq: "out = register_written (import_module matplotlib) mf fs v (start s)"
      unfolding out_def by (rule register_writes [OF wr])
    note S = register_summary [OF av b, of mf fs v s, folded eq]
    show ?thesis
    proof (cases "registered (trace (snd out)) = []")
      case True
      with S(2) [OF True] sm show ?thesis by simp
    next
      case False
      from S(3) [OF False] obtain r where r: "rebuilds (trace (snd out)) = [r]"
        "fst out = (if tolerated r then Inr True else Inl (the r))" by blast
      show ?thesis
      proof (cases r)
        case None
        with r False sm show ?thesis by simp
      next
        case (Some e)
        with r False sm show ?thesis by auto
      qed
    qed
  qed
qed

theorem register_raises_only_guard_or_rebuild_witness:
  "register_source_sans_fonts (import_module (None :: string list font_manager_module option))
       site_file two_fonts terminal True (start [])
     = (Inl (ImportError required_message), start [])
   \<and> fst (register_source_sans_fonts (import_module (Some (sans_manager [] (Some rebuild_fine))))
       site_file two_fonts terminal True (start [])) = Inr True"
proof -
  let ?N = "None :: string list font_manager_module option"
  let ?G = "Some (sans_manager [] (Some rebuild_fine))"
  let ?out = "register_source_sans_fonts (import_module ?G) site_file two_fonts terminal True (start [])"
  have t: "trace (snd ?out) =
    [FsExists (get_font_path site_file), FsGlob (get_font_path site_file),
     AddFont regular_path None,
     Print (line_registered (get_font_path site_file @ [''SourceSansPro-Regular.ttf''])),
     AddFont bold_path None,
     Print (line_registered (get_font_path site_file @ [''SourceSansPro-Bold.ttf''])),
     Rebuild None,
     Print (line_success 2)]"
    by (simp add: run_defs numeral_2_eq_2)
  have h: "?G \<noteq> None \<and> list_all tolerated (rebuilds (trace (snd ?out)))"
    unfolding t by simp
  have r: "registered (trace (snd ?out)) \<noteq> []"
    unfolding t by simp
  from register_raises_only_guard_or_rebuild
    [where matplotlib = ?N and mf = site_file and fs = two_fonts and sys_stdout = terminal
      and v = True and s = "[]"]
  have 1: "register_source_sans_fonts (import_module ?N) site_file two_fonts terminal True (start [])
      = (Inl (ImportError required_message), start [])" by blast
  from register_raises_only_guard_or_rebuild
    [where matplotlib = ?G and mf = site_file and fs = two_fonts and sys_stdout = terminal
      and v = True and s = "[]"] h r terminal_writes [of True]
  have 2: "fst ?out = Inr True" by simp
  from 1 2 show ?thesis by blast
qed

text \<open>
  The guard is not the only hard failure: with the font manager available, the exception
  of the rebuild leaves the call.
\<close>

theorem register_only_hard_failure_counterexample:
  "MATPLOTLIB_AVAILABLE (import_module (Some (sans_manager [] (Some rebuild_locked))))
   \<and> fst (register_source_sans_fonts (import_module (Some (sans_manager [] (Some rebuild_locked))))
        site_file two_fonts terminal True (start [])) = Inl (OtherException ''Lock error'')"
  by (simp add: run_defs)

subsection \<open>Failures of single files\<close>

text \<open>
  C3, with the rebuild of the font cache taken into account, for a call none of whose prints
  can raise (\<open>verbose\<close> is false, or standard output writes every line). Every file the
  directory enumeration yields is handed to \<open>addfont\<close>, in enumeration order, whatever the outcome
  for the files before it, and only files that were attempted count as registered. A
  failure of \<open>addfont\<close> never leaves the call: when the rebuild of the font cache raises
  nothing but AttributeError, the call returns, and it returns true exactly when some file
  was registered.
\<close>

theorem register_attempts_every_file:
  fixes m :: "'fm font_manager_module"
    and mf :: path and fs :: filesystem and sys_stdout :: stdout and v :: bool and s :: 'fm
  assumes wr: "writes sys_stdout v"
  defines "out \<equiv>
    register_source_sans_fonts (import_module (Some m)) mf fs sys_stdout v (start s)"
  shows "attempted (trace (snd out)) = map path_str (glob_ttf fs (get_font_path mf))
    \<and> set (registered (trace (snd out))) \<subseteq> set (attempted (trace (snd out)))
    \<and> (list_all tolerated (rebuilds (trace (snd out))) \<longrightarrow>
          fst out = Inr (registered (trace (snd out)) \<noteq> []))"
proof -
  have av: "MATPLOTLIB_AVAILABLE (import_module (Some m))"
    and b: "fm (import_module (Some m)) = Some m"
    by (simp_all add: import_module_def)
  have eq: "out = register_written (import_module (Some m)) mf fs v (start s)"
    unfolding out_def by (rule register_writes [OF wr])
  note S = register_summary [OF av b, of mf fs v s, folded eq]
  have sub: "set (registered t) \<subseteq> set (attempted t)" for t
    by (induction t) (auto split: event.splits option.splits)
  have "fst out = Inr (registered (trace (snd out)) \<noteq> [])"
    if tol: "list_all tolerated (rebuilds (trace (snd out)))"
  proof (cases "registered (trace (snd out)) = []")
    case True
    with S(2) [OF True] show ?thesis by simp
  next
    case False
    from S(3) [OF False] obtain r where r: "rebuilds (trace (snd out)) = [r]"
      "fst out = (if tolerated r then Inr True else Inl (the r))" by blast
    with tol False show ?thesis by simp
  qed
  with S(1) sub show ?thesis by blast
qed

theorem register_attempts_every_file_witness:
  "attempted (trace (snd (register_source_sans_fonts
       (import_module (Some (sans_manager [broken_path] (Some rebuild_fine))))
       site_file mixed_fonts terminal False (start [])))) = [broken_path, regular_path]
   \<and> fst (register_source_sans_fonts
       (import_module (Some (sans_manager [broken_path] (Some rebuild_fine))))
       site_file mixed_fonts terminal False (start [])) = Inr True"
proof -
  let ?m = "sans_manager [broken_path] (Some rebuild_fine)"
  let ?out = "register_source_sans_fonts (import_module (Some ?m)) site_file mixed_fonts terminal False (start [])"
  have t: "trace (snd ?out) =
    [FsExists (get_font_path site_file), FsGlob (get_font_path site_file),
     AddFont broken_path (Some (OtherException ''Can not load face'')),
     AddFont regular_path None,
     Rebuild None]"
    by (simp add: run_defs)
  have g: "map path_str (glob_ttf mixed_fonts (get_font_path site_file)) = [broken_path, regular_path]"
    by (simp add: run_defs)
  have h: "list_all tolerated (rebuilds (trace (snd ?out)))"
    unfolding t by simp
  have r: "registered (trace (snd ?out)) \<noteq> []"
    unfolding t by simp
  from register_attempts_every_file
    [OF terminal_writes, where m = ?m and mf = site_file and fs = mixed_fonts
      and v = False and s = "[]"] g h r
  show ?thesis by simp
qed

text \<open>
  Without the condition on the rebuild the last part fails: one file cannot be loaded, the
  other is registered, the rebuild raises, and the call does not return true.
\<close>

theorem register_partial_failure_counterexample:
  "registered (trace (snd (register_source_sans_fonts
       (import_module (Some (sans_manager [broken_path] (Some rebuild_locked))))
       site_file mixed_fonts terminal False (start [])))) = [regular_path]
   \<and> fst (register_source_sans_fonts
       (import_module (Some (sans_manager [broken_path] (Some rebuild_locked))))
       site_file mixed_fonts terminal False (start [])) \<noteq> Inr True"
  by (simp add: run_defs)

subsection \<open>The rebuild of the font cache\<close>

text \<open>
  C8, with the exceptions the rebuild can raise told apart, for a call none of whose prints
  can raise (\<open>verbose\<close> is false, or standard output writes every line). The rebuild is
  attempted at most once, exactly when at least one file was registered, and it is the last effect of the
  call: every enumerated file was handed to \<open>addfont\<close> before it. A library without
  \<^verbatim>\<open>_rebuild\<close> is tolerated silently: the call returns whether a file was registered and
  prints one line per file and the closing line, nothing else. A rebuild that returns or
  raises AttributeError leaves the result true; a rebuild that raises any other exception
  makes the call raise that exception.
\<close>

theorem rebuild_after_loop_best_effort:
  fixes m :: "'fm font_manager_module"
    and mf :: path and fs :: filesystem and sys_stdout :: stdout and v :: bool and s :: 'fm
  assumes wr: "writes sys_stdout v"
  defines "out \<equiv>
    register_source_sans_fonts (import_module (Some m)) mf fs sys_stdout v (start s)"
  shows "(rebuilds (trace (snd out)) \<noteq> [] \<longleftrightarrow> registered (trace (snd out)) \<noteq> [])
    \<and> length (rebuilds (trace (snd out))) \<le> 1
    \<and> (rebuilds (trace (snd out)) \<noteq> [] \<longrightarrow>
          effects (trace (snd out))
            = butlast (effects (trace (snd out))) @ [Rebuild (hd (rebuilds (trace (snd out))))]
          \<and> attempted (butlast (effects (trace (snd out))))
            = map path_str (glob_ttf fs (get_font_path mf))
          \<and> registered (butlast (effects (trace (snd out)))) = registered (trace (snd out)))
    \<and> (rebuild m = None \<longrightarrow>
          fst out = Inr (registered (trace (snd out)) \<noteq> [])
          \<and> (registered (trace (snd out)) \<noteq> [] \<longrightarrow>
                length (printed (trace (snd out)))
                  = (if v then length (attempted (trace (snd out))) + 1 else 0)))
    \<and> (\<forall>r. rebuilds (trace (snd out)) = [r] \<and> tolerated r \<longrightarrow> fst out = Inr True)
    \<and> (\<forall>e. rebuilds (trace (snd out)) = [Some e] \<and> \<not> is_AttributeError e \<longrightarrow> fst out = Inl e)"
proof -
  have av: "MATPLOTLIB_AVAILABLE (import_module (Some m))"
    and b: "fm (import_module (Some m)) = Some m"
    by (simp_all add: import_module_def)
  have eq: "out = register_written (import_module (Some m)) mf fs v (start s)"
    unfolding out_def by (rule register_writes [OF wr])
  note S = register_summary [OF av b, of mf fs v s, folded eq]
  show ?thesis
  proof (cases "registered (trace (snd out)) = []")
    case True
    with S(2) [OF True] show ?thesis by simp
  next
    case False
    from S(3) [OF False] obtain r pre where X:
      "rebuilds (trace (snd out)) = [r]
       \<and> fst out = (if tolerated r then Inr True else Inl (the r))
       \<and> effects (trace (snd out)) = pre @ [Rebuild r]
       \<and> attempted pre = map path_str (glob_ttf fs (get_font_path mf))
       \<and> registered pre = registered (trace (snd out))
       \<and> (rebuild m = None \<longrightarrow> tolerated r)
       \<and> length (printed (trace (snd out)))
           = (if v then length (glob_ttf fs (get_font_path mf)) + (if tolerated r then 1 else 0)
              else 0)"
      by (elim exE) (rule that)
    then have r: "rebuilds (trace (snd out)) = [r]"
      and f: "fst out = (if tolerated r then Inr True else Inl (the r))"
      and e: "effects (trace (snd out)) = pre @ [Rebuild r]"
      and a: "attempted pre = map path_str (glob_ttf fs (get_font_path mf))"
      and g: "registered pre = registered (trace (snd out))"
      and t: "rebuild m = None \<longrightarrow> tolerated r"
      and p: "length (printed (trace (snd out)))
           = (if v then length (glob_ttf fs (get_font_path mf)) + (if tolerated r then 1 else 0)
              else 0)"
      by simp_all
    have bl: "butlast (effects (trace (snd out))) = pre"
      unfolding e by simp
    have 1: "rebuilds (trace (snd out)) \<noteq> [] \<longleftrightarrow> registered (trace (snd out)) \<noteq> []"
      using r False by simp
    have 2: "length (rebuilds (trace (snd out))) \<le> 1"
      using r by simp
    have 3: "effects (trace (snd out))
            = butlast (effects (trace (snd out))) @ [Rebuild (hd (rebuilds (trace (snd out))))]
          \<and> attempted (butlast (effects (trace (snd out))))
            = map path_str (glob_ttf fs (get_font_path mf))
          \<and> registered (butlast (effects (trace (snd out)))) = registered (trace (snd out))"
      unfolding bl using e a g r by simp
    have 4: "fst out = Inr (registered (trace (snd out)) \<noteq> [])
          \<and> (registered (trace (snd out)) \<noteq> [] \<longrightarrow>
                length (printed (trace (snd out)))
                  = (if v then length (attempted (trace (snd out))) + 1 else 0))"
      if "rebuild m = None"
      using that t f False p S(1) by simp
    have 5: "fst out = Inr True" if "rebuilds (trace (snd out)) = [r'] \<and> tolerated r'" for r'
      using that r f by simp
    have 6: "fst out = Inl e'"
      if "rebuilds (trace (snd out)) = [Some e'] \<and> \<not> is_AttributeError e'" for e'
      using that r f by simp
    from 1 2 3 4 5 6 show ?thesis by blast
  qed
qed

theorem rebuild_after_loop_best_effort_witness:
  "fst (register_source_sans_fonts (import_module (Some (sans_manager [] None)))
          site_file two_fonts terminal True (start [])) = Inr True
   \<and> length (printed (trace (snd (register_source_sans_fonts
          (import_module (Some (sans_manager [] None)))
          site_file two_fonts terminal True (start []))))) = 3
   \<and> attempted (butlast (effects (trace (snd (register_source_sans_fonts
          (import_module (Some (sans_manager [] None)))
          site_file two_fonts terminal True (start [])))))) = [regular_path, bold_path]
   \<and> fst (register_source_sans_fonts (import_module (Some (sans_manager [] (Some rebuild_locked))))
          site_file two_fonts terminal True (start [])) = Inl (OtherException ''Lock error'')"
proof -
  let ?m = "sans_manager [] None"
  let ?l = "sans_manager [] (Some rebuild_locked)"
  let ?out = "register_source_sans_fonts (import_module (Some ?m)) site_file two_fonts terminal True (start [])"
  let ?bad = "register_source_sans_fonts (import_module (Some ?l)) site_file two_fonts terminal True (start [])"
  have t: "trace (snd ?out) =
    [FsExists (get_font_path site_file), FsGlob (get_font_path site_file),
     AddFont regular_path None,
     Print (line_registered (get_font_path site_file @ [''SourceSansPro-Regular.ttf''])),
     AddFont bold_path None,
     Print (line_registered (get_font_path site_file @ [''SourceSansPro-Bold.ttf''])),
     Rebuild (Some (AttributeError ''module has no attribute _rebuild'')),
     Print (line_success 2)]"
    by (simp add: run_defs numeral_2_eq_2)
  have u: "rebuilds (trace (snd ?bad)) = [Some (OtherException ''Lock error'')]"
    by (simp add: run_defs)
  have n: "rebuild ?m = None"
    by (simp add: sans_manager_def recording_manager_def)
  have g: "map path_str (glob_ttf two_fonts (get_font_path site_file)) = [regular_path, bold_path]"
    by (simp add: run_defs)
  have r: "registered (trace (snd ?out)) \<noteq> []" "rebuilds (trace (snd ?out)) \<noteq> []"
    "length (attempted (trace (snd ?out))) = 2"
    unfolding t by simp_all
  note T = rebuild_after_loop_best_effort
    [OF terminal_writes, where m = ?m and mf = site_file and fs = two_fonts
      and v = True and s = "[]"]
  note U = rebuild_after_loop_best_effort
    [OF terminal_writes, where m = ?l and mf = site_file and fs = two_fonts
      and v = True and s = "[]"]
  from T n r have 1: "fst ?out = Inr True" by simp
  from T n r have 2: "length (printed (trace (snd ?out))) = 3" by simp
  from T r g have 3: "attempted (butlast (effects (trace (snd ?out)))) = [regular_path, bold_path]"
    by simp
  from U u have 4: "fst ?bad = Inl (OtherException ''Lock error'')" by simp
  from 1 2 3 4 show ?thesis by blast
qed

text \<open>
  A failure of the rebuild does change the result: the same directory and the same files
  registered, once with a rebuild that returns and once with one that raises.
\<close>

theorem rebuild_failure_changes_result_counterexample:
  "fst (register_source_sans_fonts (import_module (Some (sans_manager [] (Some rebuild_fine))))
          site_file two_fonts terminal False (start [])) = Inr True
   \<and> fst (register_source_sans_fonts (import_module (Some (sans_manager [] (Some rebuild_locked))))
          site_file two_fonts terminal False (start [])) = Inl (OtherException ''Lock error'')"
  by (simp add: run_defs)

subsection \<open>The verbose flag\<close>

lemma same_effects_refl: "same_effects w w"
  by (simp add: same_effects_def)

lemma register_verbose:
  assumes se: "same_effects w1 w2"
  shows "fst (register_written G mf fs v w1) = fst (register_written G mf fs v' w2)
    \<and> same_effects (snd (register_written G mf fs v w1))
         (snd (register_written G mf fs v' w2))"
proof -
  let ?d = "get_font_path mf"
  let ?u1 = "emit (FsExists ?d) w1" and ?u2 = "emit (FsExists ?d) w2"
  let ?g1 = "emit (FsGlob ?d) ?u1" and ?g2 = "emit (FsGlob ?d) ?u2"
  let ?L1 = "loop_written G v (glob_ttf fs ?d) 0 ?g1"
  let ?L2 = "loop_written G v' (glob_ttf fs ?d) 0 ?g2"
  let ?R1 = "try_rebuild G (snd ?L1)" and ?R2 = "try_rebuild G (snd ?L2)"
  have u: "same_effects ?u1 ?u2" by (rule same_effects_emit [OF se])
  have g: "same_effects ?g1 ?g2" by (rule same_effects_emit [OF u])
  from loop_verbose [OF g, where G = G and v = v and fs = "glob_ttf fs ?d" and v' = v' and c = 0]
  have L: "fst ?L1 = fst ?L2" "same_effects (snd ?L1) (snd ?L2)" by simp_all
  from same_effects_try_rebuild [OF L(2), where G = G]
  have R: "fst ?R1 = fst ?R2" "same_effects (snd ?R1) (snd ?R2)" by simp_all
  show ?thesis
  proof (cases "MATPLOTLIB_AVAILABLE G")
    case False
    then show ?thesis using se by (simp add: register_unavailable)
  next
    case av: True
    show ?thesis
    proof (cases "path_exists fs ?d")
      case False
      then show ?thesis
        using same_effects_say [OF u] by (simp add: register_absent [OF av])
    next
      case ex: True
      show ?thesis
      proof (cases "glob_ttf fs ?d = []")
        case True
        then show ?thesis
          using same_effects_say [OF g] by (simp add: register_empty [OF av ex])
      next
        case ne: False
        show ?thesis
        proof (cases "fst ?L1 = 0")
          case True
          then have "fst (after_loop G mf fs v w1) = 0" "fst (after_loop G mf fs v' w2) = 0"
            using L(1) by (simp_all add: after_loop_def)
          then show ?thesis
            using L(2) by (simp add: register_none [OF av ex ne] after_loop_def)
        next
          case False
          then have p: "0 < fst (after_loop G mf fs v w1)" "0 < fst (after_loop G mf fs v' w2)"
            using L(1) by (simp_all add: after_loop_def)
          show ?thesis
            using L R same_effects_say [OF R(2)]
            by (simp add: register_some [OF av ex ne p(1)] register_some [OF av ex ne p(2)]
                after_loop_def Let_def)
        qed
      qed
    qed
  qed
qed

lemma printed_try_rebuild: "printed (trace (snd (try_rebuild G w))) = printed (trace w)"
  by (simp add: trace_try_rebuild split: option.splits)

lemma register_quiet:
  "printed (trace (snd (register_written G mf fs False (start s)))) = []"
proof (cases "MATPLOTLIB_AVAILABLE G")
  case False
  then show ?thesis by (simp add: register_unavailable)
next
  case av: True
  let ?d = "get_font_path mf"
  let ?L = "after_loop G mf fs False (start s)"
  have q: "printed (trace (snd ?L)) = []"
    by (simp add: after_loop_def loop_quiet)
  consider (absent) "\<not> path_exists fs ?d"
    | (empty) "path_exists fs ?d" "glob_ttf fs ?d = []"
    | (none) "path_exists fs ?d" "glob_ttf fs ?d \<noteq> []" "fst ?L = 0"
    | (some) "path_exists fs ?d" "glob_ttf fs ?d \<noteq> []" "0 < fst ?L"
    by fastforce
  then show ?thesis
  proof cases
    case absent
    then show ?thesis by (simp add: register_absent [OF av])
  next
    case empty
    then show ?thesis by (simp add: register_empty [OF av])
  next
    case none
    then show ?thesis using q by (simp add: register_none [OF av])
  next
    case some
    then show ?thesis using q by (simp add: register_some [OF av] Let_def printed_try_rebuild)
  qed
qed

text \<open>
  C9, for a standard output that can fail. A call with \<open>verbose=False\<close> prints nothing, and
  its result, the state it leaves and its effects do not depend on standard output. When
  standard output writes every line, a call with \<open>verbose=True\<close> gives the same result
  (value or exception) as the call with \<open>verbose=False\<close>, leaves the same state of the font
  manager, registers the same files and has the same effects in the same order.
\<close>

theorem verbose_only_prints_when_written:
  fixes G :: "'fm module_globals" and mf :: path and fs :: filesystem
    and sys_stdout other :: stdout and s :: 'fm
  defines "loud \<equiv> register_source_sans_fonts G mf fs sys_stdout True (start s)"
    and "quiet \<equiv> register_source_sans_fonts G mf fs sys_stdout False (start s)"
  shows "register_source_sans_fonts G mf fs other False (start s) = quiet
    \<and> printed (trace (snd quiet)) = []
    \<and> ((\<forall>line. sys_stdout line = None) \<longrightarrow>
          fst loud = fst quiet
          \<and> fontManager (snd loud) = fontManager (snd quiet)
          \<and> registered (trace (snd loud)) = registered (trace (snd quiet))
          \<and> effects (trace (snd loud)) = trace (snd quiet))"
proof (intro conjI impI)
  have qw: "quiet = register_written G mf fs False (start s)"
    unfolding quiet_def by (rule register_quiet_any_stdout)
  show "register_source_sans_fonts G mf fs other False (start s) = quiet"
    unfolding qw by (rule register_quiet_any_stdout)
  show q: "printed (trace (snd quiet)) = []"
    unfolding qw by (rule register_quiet)
  assume "\<forall>line. sys_stdout line = None"
  then have "writes sys_stdout True" by (simp add: writes_def)
  then have lw: "loud = register_written G mf fs True (start s)"
    unfolding loud_def by (rule register_writes)
  from register_verbose [OF same_effects_refl [of "start s"], where G = G and mf = mf and fs = fs
      and v = True and v' = False]
  have r: "fst loud = fst quiet" and e: "same_effects (snd loud) (snd quiet)"
    by (simp_all add: lw qw)
  have t: "effects (trace (snd quiet)) = trace (snd quiet)"
    by (rule effects_quiet [OF q])
  have "registered (effects (trace (snd loud))) = registered (effects (trace (snd quiet)))"
    using e by (simp only: same_effects_def)
  then have g: "registered (trace (snd loud)) = registered (trace (snd quiet))" by simp
  show "fst loud = fst quiet" by (rule r)
  show "fontManager (snd loud) = fontManager (snd quiet)"
    using e by (simp add: same_effects_def)
  show "registered (trace (snd loud)) = registered (trace (snd quiet))" by (rule g)
  show "effects (trace (snd loud)) = trace (snd quiet)"
    using e t by (simp add: same_effects_def)
qed

theorem verbose_only_prints_when_written_witness:
  "fst (register_source_sans_fonts (import_module (Some (sans_manager [broken_path] None)))
          site_file mixed_fonts terminal True (start []))
     = fst (register_source_sans_fonts (import_module (Some (sans_manager [broken_path] None)))
          site_file mixed_fonts terminal False (start []))
   \<and> register_source_sans_fonts (import_module (Some (sans_manager [broken_path] None)))
          site_file mixed_fonts closed_stdout False (start [])
     = register_source_sans_fonts (import_module (Some (sans_manager [broken_path] None)))
          site_file mixed_fonts terminal False (start [])"
proof -
  have w: "\<forall>line. terminal line = None"
    by (simp add: terminal_def)
  note T = verbose_only_prints_when_written
    [where G = "import_module (Some (sans_manager [broken_path] None))" and mf = site_file
      and fs = mixed_fonts and sys_stdout = terminal and other = closed_stdout and s = "[]"]
  from T w show ?thesis by blast
qed

text \<open>
  With a standard output that was closed the flag changes the result and the effects: the
  first file is registered, the \<^verbatim>\<open>print\<close> inside the \<^verbatim>\<open>try\<close> raises, the \<^verbatim>\<open>print\<close> of the handler
  raises again, and the call raises before the second file and the rebuild; the quiet call
  registers both files, rebuilds and returns true.
\<close>

theorem verbose_changes_result_counterexample:
  "fst (register_source_sans_fonts (import_module (Some (sans_manager [] (Some rebuild_fine))))
          site_file two_fonts closed_stdout True (start []))
     = Inl (OtherException ''I/O operation on closed file.'')
   \<and> registered (trace (snd (register_source_sans_fonts
          (import_module (Some (sans_manager [] (Some rebuild_fine))))
          site_file two_fonts closed_stdout True (start [])))) = [regular_path]
   \<and> rebuilds (trace (snd (register_source_sans_fonts
          (import_module (Some (sans_manager [] (Some rebuild_fine))))
          site_file two_fonts closed_stdout True (start [])))) = []
   \<and> fst (register_source_sans_fonts (import_module (Some (sans_manager [] (Some rebuild_fine))))
          site_file two_fonts closed_stdout False (start [])) = Inr True
   \<and> registered (trace (snd (register_source_sans_fonts
          (import_module (Some (sans_manager [] (Some rebuild_fine))))
          site_file two_fonts closed_stdout False (start [])))) = [regular_path, bold_path]
   \<and> rebuilds (trace (snd (register_source_sans_fonts
          (import_module (Some (sans_manager [] (Some rebuild_fine))))
          site_file two_fonts closed_stdout False (start [])))) = [None]"
  by (simp add: run_defs)

subsection \<open>Checking availability\<close>














text \<open>
  C10. Without matplotlib, \<open>is_source_sans_available\<close> returns false, where
  \<open>register_source_sans_fonts\<close> raises ImportError; and with or without it, the check
  returns a boolean and raises nothing.
\<close>

theorem availability_check_is_safe:
  fixes matplotlib :: "'fm font_manager_module option" and s q :: 'fm
  shows "is_source_sans_available (import_module (None :: 'fm font_manager_module option)) s = Inr False
    \<and> fst (register_source_sans_fonts (import_module (None :: 'fm font_manager_module option)) mf fs sys_stdout v w)
        = Inl (ImportError required_message)
    \<and> (\<exists>b. is_source_sans_available (import_module matplotlib) q = Inr b)"
  by (auto simp: is_source_sans_available_def register_guard import_module_def
      split: option.splits)

theorem availability_check_is_safe_witness:
  "is_source_sans_available (import_module (None :: string list font_manager_module option))
       [''DejaVu Sans''] = Inr False
   \<and> fst (register_source_sans_fonts (import_module (None :: string list font_manager_module option))
       site_file two_fonts closed_stdout False (start [''DejaVu Sans'']))
       = Inl (ImportError required_message)"
  using availability_check_is_safe
    [where 'fm = "string list" and s = "[''DejaVu Sans'']" and mf = site_file and fs = two_fonts
      and sys_stdout = closed_stdout and v = False and w = "start [''DejaVu Sans'']"]
  by blast

end
